theory Spec2Isabelle
  imports Main "HOL-Library.Word"
begin

unbundle bit_operations_syntax

section \<open>Values\<close>

text \<open>
  Errors of the program are values. \<open>InvalidArgument\<close> is the exception of
  \<^verbatim>\<open>module.errors\<close>; \<open>TransportFailure e\<close> is whatever an outbound call of the
  HTTP collaborator raises (\<open>e\<close> tells the failures apart); the others are the built-in
  exceptions the constructors can raise.
\<close>

datatype pyerr =
    InvalidArgument
  | TransportFailure nat
  | AttributeError
  | TypeError
  | ValueError
  | OverflowError

text \<open>
  The wire values: what \<^verbatim>\<open>json\<close> reads and writes. \<open>JNone\<close> is Python's
  \<^verbatim>\<open>None\<close>, a \<open>JFloat\<close> holds the 64 bits of a double, a \<open>JDict\<close> keeps the
  insertion order of its keys.
\<close>

datatype json =
    JNone
  | JBool bool
  | JInt int
  | JFloat "64 word"
  | JStr string
  | JList "json list"
  | JDict "(string \<times> json) list"

text \<open>
  Python's truth value of an object, as \<^verbatim>\<open>if x:\<close> and \<^verbatim>\<open>bool(x)\<close> take it.
  A float is false when it is zero of either sign: when every bit but the sign is clear.
\<close>

fun truthy :: "json \<Rightarrow> bool" where
  "truthy JNone = False"
| "truthy (JBool b) = b"
| "truthy (JInt i) = (i \<noteq> 0)"
| "truthy (JFloat w) = (take_bit 63 w \<noteq> 0)"
| "truthy (JStr s) = (s \<noteq> [])"
| "truthy (JList xs) = (xs \<noteq> [])"
| "truthy (JDict kvs) = (kvs \<noteq> [])"

text \<open>
  \<^verbatim>\<open>d[k] = v\<close> on a dictionary: the value of an existing key is replaced in place,
  a new key goes to the end.
\<close>

fun setitem :: "('k \<times> 'v) list \<Rightarrow> 'k \<Rightarrow> 'v \<Rightarrow> ('k \<times> 'v) list" where
  "setitem [] k v = [(k, v)]"
| "setitem ((k', v') # d) k v = (if k' = k then (k, v) # d else (k', v') # setitem d k v)"

section \<open>Payload builder\<close>

text \<open>
  \<^verbatim>\<open>InteractionContext._get_payload\<close>. The dictionary starts empty and each field
  is stored when its argument is truthy; the flags field is \<^verbatim>\<open>1 << 6\<close>.
\<close>

definition get_payload ::
  "json \<Rightarrow> bool \<Rightarrow> json \<Rightarrow> bool \<Rightarrow> json \<Rightarrow> json \<Rightarrow> (string \<times> json) list" where
  "get_payload content tts embed' hidden allowed_mentions components =
    (let payload = [];
         payload = (if truthy content then setitem payload ''content'' content else payload);
         payload = (if tts then setitem payload ''tts'' (JBool tts) else payload);
         payload = (if truthy embed' then setitem payload ''embeds'' embed' else payload);
         payload = (if truthy allowed_mentions
                    then setitem payload ''allowed_mentions'' allowed_mentions else payload);
         payload = (if hidden then setitem payload ''flags'' (JInt (push_bit 6 1)) else payload);
         payload = (if truthy components then setitem payload ''components'' components
                    else payload)
     in payload)"

section \<open>Attachments and outbound calls\<close>

type_synonym payload = "(string \<times> json) list"

text \<open>
  An attachment (\<^verbatim>\<open>discord.File\<close>): the stream it holds, named by a handle, and
  its file name. The object has no \<^verbatim>\<open>__bool__\<close> or \<^verbatim>\<open>__len__\<close>, so
  \<^verbatim>\<open>if file:\<close> is the test \<^verbatim>\<open>file is not None\<close>.
\<close>

datatype attachment = File (fp: nat) (filename: string)

text \<open>
  Modelled from the spec: \<^verbatim>\<open>_files_to_form\<close> of \<^verbatim>\<open>module.message\<close>, which is
  not among the sources. The spec's attachment packager returns a multipart body that
  combines the JSON payload, as one part, with each attachment as a named binary part,
  keeping the order and the file names of its input.
\<close>

datatype form = Multipart (payload_json: payload) (parts: "(string \<times> nat) list")

definition files_to_form :: "attachment list \<Rightarrow> payload \<Rightarrow> form" where
  "files_to_form files payload = Multipart payload (map (\<lambda>f. (filename f, fp f)) files)"

text \<open>A message id: the string \<^verbatim>\<open>"@original"\<close> by default, else a string or a number.\<close>

datatype message_id = IdStr string | IdInt int

text \<open>
  The methods of \<^verbatim>\<open>HttpClient\<close> that \<^verbatim>\<open>defer\<close>, \<^verbatim>\<open>send\<close> and
  \<^verbatim>\<open>edit\<close> call, each with the arguments it is given.
\<close>

datatype http_call =
    PostDeferResponse payload
  | PostInitialResponse payload
  | GetInitialResponse
  | EditInitialResponse payload "form option" "attachment list option"
  | PostFollowup payload "form option" "attachment list option"
  | EditFollowup message_id payload "form option" "attachment list option"

text \<open>
  The HTTP collaborator is not part of the program: it is a parameter, a function from
  the calls issued so far and the call at hand to the parsed response or to the
  exception the call raises.
\<close>

type_synonym transport = "http_call list \<Rightarrow> http_call \<Rightarrow> pyerr + json"

section \<open>Interaction context\<close>

text \<open>
  The objects of the cache are known by their identities. A guild answers three lookups;
  the client resolves guilds, users and, through its connection state, channels. The
  lookups belong to the library, so they are fields to be filled in, not definitions.
\<close>

record guild =
  get_member :: "json \<Rightarrow> nat option"
  get_channel :: "json \<Rightarrow> nat option"
  get_role :: "json \<Rightarrow> nat option"

record client =
  get_guild :: "int \<Rightarrow> guild option"
  get_user :: "json \<Rightarrow> nat option"
  state_get_channel :: "int \<Rightarrow> nat option"

text \<open>
  An \<^verbatim>\<open>InteractionContext\<close>: where the interaction comes from and its two flags,
  together with the record of its effects on the outside: \<open>calls\<close> lists the outbound
  calls in the order they were issued (a call that raised included), \<open>closes\<close> the
  attachments in the order their \<^verbatim>\<open>close\<close> was invoked. The identity fields (id,
  version, type, token, application, author, creation time) are built by library
  constructors and play no part in what follows; they are left out.
\<close>

record interaction_context =
  guild_id :: json
  channel_id :: json
  guild :: "guild option"
  channel :: "nat option"
  deferred :: bool
  responded :: bool
  calls :: "http_call list"
  closes :: "attachment list"

text \<open>
  A method is a function from the context to its outcome, the exception raised or the
  value returned, and the context it leaves. What a method has done before it raises
  stays done.
\<close>

type_synonym 'a eff = "interaction_context \<Rightarrow> (pyerr + 'a) \<times> interaction_context"

definition ret :: "'a \<Rightarrow> 'a eff" where
  "ret a s = (Inr a, s)"

definition raise :: "pyerr \<Rightarrow> 'a eff" where
  "raise e s = (Inl e, s)"

definition and_then :: "'a eff \<Rightarrow> ('a \<Rightarrow> 'b eff) \<Rightarrow> 'b eff" where
  "and_then m f s = (case m s of (Inl e, s') \<Rightarrow> (Inl e, s') | (Inr a, s') \<Rightarrow> f a s')"

text \<open>\<^verbatim>\<open>await self.http.<call>\<close>: the call is issued, then it returns or raises.\<close>

definition request :: "transport \<Rightarrow> http_call \<Rightarrow> json eff" where
  "request http c s = (http (calls s) c, s\<lparr>calls := calls s @ [c]\<rparr>)"

text \<open>\<^verbatim>\<open>InteractionContext.defer\<close>.\<close>

definition defer' :: "transport \<Rightarrow> bool \<Rightarrow> unit eff" where
  "defer' http hidden =
    (let base = [(''type'', JInt 5)];
         base = (if hidden then setitem base ''data'' (JDict [(''flags'', JInt 64)]) else base)
     in and_then (request http (PostDeferResponse base))
          (\<lambda>_ s. (Inr (), s\<lparr>deferred := True\<rparr>)))"

text \<open>
  The objects a caller passes. An embed and a component are given by the dictionary
  their serialiser returns (\<^verbatim>\<open>to_all_dict\<close> for an action row, \<^verbatim>\<open>to_dict\<close> for the
  others); the content object by the string \<^verbatim>\<open>str\<close> makes of it.
\<close>

datatype embed = Embed json

fun embed_to_dict :: "embed \<Rightarrow> json" where
  "embed_to_dict (Embed d) = d"

datatype component = ActionRow json | Button json | Selection json

fun component_to_dict :: "component \<Rightarrow> json" where
  "component_to_dict (ActionRow d) = d"
| "component_to_dict (Button d) = d"
| "component_to_dict (Selection d) = d"

datatype mentions = AllowedMentions json

text \<open>
  \<^verbatim>\<open>_allowed_mentions(self._state, allowed_mentions)\<close> of \<^verbatim>\<open>module.message\<close> is
  not among the sources: the resolver is a parameter.
\<close>

type_synonym resolver = "mentions option \<Rightarrow> json"

text \<open>
  The normalisation of the arguments that \<^verbatim>\<open>send\<close> and \<^verbatim>\<open>edit\<close> share, up to
  the call of \<^verbatim>\<open>_get_payload\<close>: a single embed becomes a list of one, the embeds and
  the components are serialised, the mentions are resolved.
\<close>

definition build_payload ::
  "resolver \<Rightarrow> string option \<Rightarrow> bool \<Rightarrow> embed option \<Rightarrow> embed list option \<Rightarrow> bool
     \<Rightarrow> mentions option \<Rightarrow> component list option \<Rightarrow> payload" where
  "build_payload resolve content tts embed' embeds hidden allowed_mentions components =
    (let content = (case content of None \<Rightarrow> JNone | Some c \<Rightarrow> JStr c);
         embeds = (case embed' of Some e \<Rightarrow> Some [e] | None \<Rightarrow> embeds);
         embeds = (case embeds of None \<Rightarrow> JNone | Some es \<Rightarrow> JList (map embed_to_dict es));
         components = (case components of None \<Rightarrow> JNone
                       | Some cs \<Rightarrow> JList (map component_to_dict cs));
         allowed_mentions = resolve allowed_mentions
     in get_payload content tts embeds hidden allowed_mentions components)"

text \<open>\<^verbatim>\<open>if file: files = [file]\<close>.\<close>

definition attachments :: "attachment option \<Rightarrow> attachment list option \<Rightarrow> attachment list option" where
  "attachments file files = (case file of Some f \<Rightarrow> Some [f] | None \<Rightarrow> files)"

text \<open>The list that \<^verbatim>\<open>if files:\<close> tests and the loops run over: none when it is \<^verbatim>\<open>None\<close>.\<close>

definition file_list :: "attachment list option \<Rightarrow> attachment list" where
  "file_list files = (case files of None \<Rightarrow> [] | Some fs \<Rightarrow> fs)"

text \<open>\<^verbatim>\<open>for i in files: i.close()\<close>.\<close>

fun close_all :: "attachment list \<Rightarrow> unit eff" where
  "close_all [] s = (Inr (), s)"
| "close_all (f # fs) s = close_all fs (s\<lparr>closes := closes s @ [f]\<rparr>)"

datatype message = Message json

text \<open>\<^verbatim>\<open>InteractionContext.send\<close>.\<close>

definition send ::
  "transport \<Rightarrow> resolver \<Rightarrow> string option \<Rightarrow> bool \<Rightarrow> embed option \<Rightarrow> embed list option
     \<Rightarrow> attachment option \<Rightarrow> attachment list option \<Rightarrow> bool \<Rightarrow> mentions option
     \<Rightarrow> component list option \<Rightarrow> message eff" where
  "send http resolve content tts embed' embeds file files hidden allowed_mentions components =
    (if file \<noteq> None \<and> files \<noteq> None then raise InvalidArgument
     else if embed' \<noteq> None \<and> embeds \<noteq> None then raise InvalidArgument
     else
       let payload = build_payload resolve content tts embed' embeds hidden allowed_mentions
                       components;
           files = attachments file files;
           form = (if file_list files \<noteq> [] then Some (files_to_form (file_list files) payload)
                   else None)
       in and_then
            (\<lambda>s. if \<not> responded s
                 then and_then (if file_list files \<noteq> [] then defer' http hidden else ret ())
                        (\<lambda>_ s.
                          and_then
                            (if deferred s
                             then request http (EditInitialResponse payload form files)
                             else and_then (request http (PostInitialResponse payload))
                                    (\<lambda>_. request http GetInitialResponse))
                            (\<lambda>resp s. (Inr resp, s\<lparr>responded := True\<rparr>)) s) s
                 else request http (PostFollowup payload form files) s)
            (\<lambda>resp. and_then
                      (if file_list files \<noteq> [] then close_all (file_list files) else ret ())
                      (\<lambda>_. ret (Message resp))))"

text \<open>
  \<^verbatim>\<open>InteractionContext.edit\<close>. It builds the payload with \<^verbatim>\<open>tts\<close> and
  \<^verbatim>\<open>hidden\<close> at their defaults.
\<close>

definition edit ::
  "transport \<Rightarrow> resolver \<Rightarrow> message_id \<Rightarrow> string option \<Rightarrow> embed option \<Rightarrow> embed list option
     \<Rightarrow> attachment option \<Rightarrow> attachment list option \<Rightarrow> mentions option
     \<Rightarrow> component list option \<Rightarrow> message eff" where
  "edit http resolve message_id content embed' embeds file files allowed_mentions components =
    (if file \<noteq> None \<and> files \<noteq> None then raise InvalidArgument
     else if embed' \<noteq> None \<and> embeds \<noteq> None then raise InvalidArgument
     else
       let payload = build_payload resolve content False embed' embeds False allowed_mentions
                       components;
           files = attachments file files;
           form = (if file_list files \<noteq> [] then Some (files_to_form (file_list files) payload)
                   else None)
       in and_then
            (if message_id = IdStr ''@original''
             then request http (EditInitialResponse payload form files)
             else request http (EditFollowup message_id payload form files))
            (\<lambda>resp. and_then
                      (if file_list files \<noteq> [] then close_all (file_list files) else ret ())
                      (\<lambda>_. ret (Message resp))))"

section \<open>Construction\<close>

text \<open>
  Python's built-in conversions \<^verbatim>\<open>int\<close> and \<^verbatim>\<open>float\<close> return the number or
  raise (\<^verbatim>\<open>TypeError\<close>, \<^verbatim>\<open>ValueError\<close>, \<^verbatim>\<open>OverflowError\<close>). Parsing and
  rounding are not the program's: the two conversions are parameters.
\<close>

record builtins =
  py_int :: "json \<Rightarrow> pyerr + int"
  py_float :: "json \<Rightarrow> pyerr + 64 word"

text \<open>
  One entry of the \<^verbatim>\<open>options\<close> array of a command payload, read with
  \<^verbatim>\<open>option.get\<close>: a missing name or type tag is \<^verbatim>\<open>None\<close>.
\<close>

record option_data =
  opt_name :: "string option"
  opt_value :: json
  opt_type :: "int option"

text \<open>
  The fields of the inbound payload that the constructors read: \<^verbatim>\<open>guild_id\<close> and
  \<^verbatim>\<open>channel_id\<close> (\<^verbatim>\<open>None\<close> when absent), the command name and the options of
  \<^verbatim>\<open>data\<close> (the empty list when absent).
\<close>

record interaction_payload =
  p_guild_id :: json
  p_channel_id :: json
  p_name :: json
  p_options :: "option_data list"

definition bind_result :: "pyerr + 'a \<Rightarrow> ('a \<Rightarrow> pyerr + 'b) \<Rightarrow> pyerr + 'b" where
  "bind_result r f = (case r of Inl e \<Rightarrow> Inl e | Inr a \<Rightarrow> f a)"

text \<open>
  \<^verbatim>\<open>InteractionContext.__init__\<close>: the guild is looked up only when the payload
  carries a guild id, and the lookup may find none; the channel is always looked up.
  Both flags start cleared, and nothing has been sent or closed.
\<close>

definition interaction_init ::
  "builtins \<Rightarrow> client \<Rightarrow> interaction_payload \<Rightarrow> pyerr + interaction_context" where
  "interaction_init py client payload =
    bind_result
      (if p_guild_id payload \<noteq> JNone
       then bind_result (py_int py (p_guild_id payload)) (\<lambda>i. Inr (get_guild client i))
       else Inr None)
      (\<lambda>g. bind_result (py_int py (p_channel_id payload))
        (\<lambda>c. Inr \<lparr>guild_id = p_guild_id payload, channel_id = p_channel_id payload,
                   guild = g, channel = state_get_channel client c,
                   deferred = False, responded = False, calls = [], closes = []\<rparr>))"

text \<open>
  What an option slot or the \<^verbatim>\<open>member\<close> attribute holds: a value of the payload,
  or an object of the cache. A lookup that finds nothing returns \<^verbatim>\<open>None\<close>.
\<close>

datatype pyval = PJson json | PMember nat | PUser nat | PChannel nat | PRole nat

definition found :: "(nat \<Rightarrow> pyval) \<Rightarrow> nat option \<Rightarrow> pyval" where
  "found obj r = (case r of None \<Rightarrow> PJson JNone | Some i \<Rightarrow> obj i)"

text \<open>
  A \<^verbatim>\<open>SlashContext\<close> is an \<^verbatim>\<open>InteractionContext\<close> with the command name, the
  \<^verbatim>\<open>options\<close> dictionary (in insertion order) and the \<^verbatim>\<open>member\<close> attribute,
  which exists only once it has been assigned.
\<close>

record slash_context = interaction_context +
  name :: json
  options :: "(string option \<times> pyval) list"
  member' :: "pyval option"

text \<open>The body of the loop of \<^verbatim>\<open>SlashContext.__init__\<close>, for one option.\<close>

definition store_option ::
  "builtins \<Rightarrow> client \<Rightarrow> option_data \<Rightarrow> slash_context \<Rightarrow> pyerr + slash_context" where
  "store_option py client option ctx =
    (let key = opt_name option;
         val = opt_value option;
         option_type = opt_type option
     in if option_type = Some 3 then Inr (ctx\<lparr>options := setitem (options ctx) key (PJson val)\<rparr>)
        else if option_type = Some 4
        then Inr (ctx\<lparr>options := setitem (options ctx) key (PJson val)\<rparr>)
        else if option_type = Some 5
        then Inr (ctx\<lparr>options := setitem (options ctx) key (PJson (JBool (truthy val)))\<rparr>)
        else if option_type = Some 6
        then (case guild ctx of
                Some g \<Rightarrow> Inr (ctx\<lparr>member' := Some (found PMember (get_member g val))\<rparr>)
              | None \<Rightarrow> Inr (ctx\<lparr>member' := Some (found PUser (get_user client val))\<rparr>))
        else if option_type = Some 7 \<and> guild ctx \<noteq> None
        then Inr (ctx\<lparr>options :=
                    setitem (options ctx) key (found PChannel (get_channel (the (guild ctx)) val))\<rparr>)
        else if option_type = Some 8
        then (case guild ctx of
                None \<Rightarrow> Inl AttributeError
              | Some g \<Rightarrow>
                  Inr (ctx\<lparr>options := setitem (options ctx) key (found PRole (get_role g val))\<rparr>))
        else if option_type = Some 10
        then bind_result (py_float py val)
               (\<lambda>f. Inr (ctx\<lparr>options := setitem (options ctx) key (PJson (JFloat f))\<rparr>))
        else Inr (ctx\<lparr>options := setitem (options ctx) key (PJson val)\<rparr>))"

text \<open>The loop: the first option that raises ends the construction.\<close>

fun store_options ::
  "builtins \<Rightarrow> client \<Rightarrow> option_data list \<Rightarrow> slash_context \<Rightarrow> pyerr + slash_context" where
  "store_options py client [] ctx = Inr ctx"
| "store_options py client (option # rest) ctx =
     bind_result (store_option py client option ctx) (store_options py client rest)"

text \<open>\<^verbatim>\<open>SlashContext.__init__\<close>.\<close>

definition slash_init ::
  "builtins \<Rightarrow> client \<Rightarrow> interaction_payload \<Rightarrow> pyerr + slash_context" where
  "slash_init py client payload =
    bind_result (interaction_init py client payload)
      (\<lambda>base. store_options py client (p_options payload)
         \<lparr>guild_id = guild_id base, channel_id = channel_id base, guild = guild base,
          channel = channel base, deferred = deferred base, responded = responded base,
          calls = calls base, closes = closes base,
          name = p_name payload, options = [], member' = None\<rparr>)"

section \<open>Properties\<close>

text \<open>
  C9. The payload built from the content \<open>hi\<close> with \<open>hidden\<close> set, every other
  argument at its default, is the dictionary with exactly the two keys \<open>content\<close>,
  holding \<open>hi\<close>, and \<open>flags\<close>, holding 64.
\<close>

theorem get_payload_hi_hidden:
  "get_payload (JStr ''hi'') False JNone True JNone JNone
     = [(''content'', JStr ''hi''), (''flags'', JInt 64)]"
  by (simp add: get_payload_def)

end
